theory Spec2Isabelle
  imports Complex_Main "HOL-Library.AList"
begin

section \<open>JavaScript values\<close>

text \<open>
  Both modules of the repository (\<^verbatim>\<open>pyconfig.ts\<close> and \<^verbatim>\<open>pyexec.ts\<close>) work on
  dynamically typed values: the result of \<^verbatim>\<open>JSON.parse\<close> or \<^verbatim>\<open>toml.parse\<close> may be any
  value, and the code inspects it with \<^verbatim>\<open>typeof\<close>, \<^verbatim>\<open>Array.isArray\<close>, \<^verbatim>\<open>in\<close>,
  \<^verbatim>\<open>for ... in\<close> and \<^verbatim>\<open>||\<close>. The values are a datatype; an object is the list of its
  own enumerable properties in insertion order (the engine's reordering of integer-like
  keys is not modelled; every property stated below is about the value found under a key,
  never about the order of enumeration). Strings are Isabelle strings, so code units are
  limited to the range 0..255.
\<close>

datatype jsnum = Finite rat | Infinite bool | NaN

datatype jsval =
    JUndefined
  | JNull
  | JBool bool
  | JNum jsnum
  | JStr string
  | JArr "jsval list"
  | JObj "(string \<times> jsval) list"

type_synonym obj = "(string \<times> jsval) list"

text \<open>
  A thrown error object: its \<^verbatim>\<open>name\<close>, its \<^verbatim>\<open>message\<close> and its string form (what
  \<^verbatim>\<open>err.toString()\<close> and string conversion give). The errors built by \<^verbatim>\<open>Error(m)\<close>,
  \<^verbatim>\<open>SyntaxError(m)\<close> and by the engine (\<^verbatim>\<open>TypeError\<close>) have the string form of
  \<^verbatim>\<open>Error.prototype.toString\<close>; the error objects of the TOML parser and of the
  interpreter bridge are foreign and carry their own.
\<close>

datatype js_error = JsError (err_name: string) (err_message: string) (err_string: string)

definition error_toString :: "string \<Rightarrow> string \<Rightarrow> string" where
  "error_toString n m = (if n = [] then m else if m = [] then n else n @ '': '' @ m)"

definition Error :: "string \<Rightarrow> js_error" where
  "Error m = JsError ''Error'' m (error_toString ''Error'' m)"

definition SyntaxError :: "string \<Rightarrow> js_error" where
  "SyntaxError m = JsError ''SyntaxError'' m (error_toString ''SyntaxError'' m)"

definition TypeError :: "string \<Rightarrow> js_error" where
  "TypeError m = JsError ''TypeError'' m (error_toString ''TypeError'' m)"

fun typeof :: "jsval \<Rightarrow> string" where
  "typeof JUndefined = ''undefined''"
| "typeof JNull = ''object''"
| "typeof (JBool b) = ''boolean''"
| "typeof (JNum n) = ''number''"
| "typeof (JStr s) = ''string''"
| "typeof (JArr xs) = ''object''"
| "typeof (JObj ps) = ''object''"

fun isArray :: "jsval \<Rightarrow> bool" where
  "isArray (JArr xs) = True"
| "isArray v = False"

text \<open>Truthiness, as \<^verbatim>\<open>||\<close> tests it: the falsy values are \<^verbatim>\<open>undefined\<close>, \<^verbatim>\<open>null\<close>,
  \<^verbatim>\<open>false\<close>, zero, \<^verbatim>\<open>NaN\<close> and the empty string.\<close>

fun truthy :: "jsval \<Rightarrow> bool" where
  "truthy JUndefined = False"
| "truthy JNull = False"
| "truthy (JBool b) = b"
| "truthy (JNum n) = (n \<noteq> Finite 0 \<and> n \<noteq> NaN)"
| "truthy (JStr s) = (s \<noteq> [])"
| "truthy (JArr xs) = True"
| "truthy (JObj ps) = True"

definition js_or :: "jsval \<Rightarrow> jsval \<Rightarrow> jsval" where
  "js_or a b = (if truthy a then a else b)"

subsection \<open>Properties\<close>

fun string_of_nat :: "nat \<Rightarrow> string" where
  "string_of_nat n =
     (if n < 10 then [char_of (48 + n)]
      else string_of_nat (n div 10) @ [char_of (48 + n mod 10)])"

text \<open>The own enumerable properties a \<^verbatim>\<open>for ... in\<close> loop visits: the fields of an
  object, the indices of an array, the indices of a string (each holding a one-character
  string); \<^verbatim>\<open>undefined\<close>, \<^verbatim>\<open>null\<close>, numbers and booleans have none.\<close>

fun own_props :: "jsval \<Rightarrow> obj" where
  "own_props (JObj ps) = ps"
| "own_props (JArr xs) = zip (map string_of_nat [0..<length xs]) xs"
| "own_props (JStr s) = zip (map string_of_nat [0..<length s]) (map (\<lambda>c. JStr [c]) s)"
| "own_props v = []"

definition enum_keys :: "jsval \<Rightarrow> string list" where
  "enum_keys v = map fst (own_props v)"

text \<open>Reading \<^verbatim>\<open>v[k]\<close>. The program reads only schema names and keys it has just
  enumerated, so the members an object inherits are never the answer; a key that is not
  an own property reads as \<^verbatim>\<open>undefined\<close>.\<close>

definition js_get :: "jsval \<Rightarrow> string \<Rightarrow> jsval" where
  "js_get v k = (case map_of (own_props v) k of Some x \<Rightarrow> x | None \<Rightarrow> JUndefined)"

definition obj_get :: "obj \<Rightarrow> string \<Rightarrow> jsval" where
  "obj_get ob k = js_get (JObj ob) k"

text \<open>The members every plain object inherits from \<^verbatim>\<open>Object.prototype\<close>, and those an
  array has besides its indices. The \<^verbatim>\<open>in\<close> operator sees them.\<close>

definition objectPrototypeKeys :: "string list" where
  "objectPrototypeKeys =
     [''constructor'', ''__defineGetter__'', ''__defineSetter__'', ''hasOwnProperty'',
      ''__lookupGetter__'', ''__lookupSetter__'', ''isPrototypeOf'',
      ''propertyIsEnumerable'', ''toString'', ''valueOf'', ''__proto__'',
      ''toLocaleString'']"

definition arrayPrototypeKeys :: "string list" where
  "arrayPrototypeKeys =
     [''length'', ''at'', ''concat'', ''copyWithin'', ''fill'', ''find'', ''findIndex'',
      ''findLast'', ''findLastIndex'', ''lastIndexOf'', ''pop'', ''push'', ''reverse'',
      ''shift'', ''unshift'', ''slice'', ''sort'', ''splice'', ''includes'', ''indexOf'',
      ''join'', ''keys'', ''entries'', ''values'', ''forEach'', ''filter'', ''flat'',
      ''flatMap'', ''map'', ''every'', ''some'', ''reduce'', ''reduceRight'']"

definition obj_in :: "string \<Rightarrow> obj \<Rightarrow> bool" where
  "obj_in k ob = (k \<in> set (map fst ob) \<or> k \<in> set objectPrototypeKeys)"

text \<open>\<^verbatim>\<open>k in v\<close> raises a \<^verbatim>\<open>TypeError\<close> when \<^verbatim>\<open>v\<close> is not an object (the message is
  the engine's; only the kind of the error is used below).\<close>

fun js_in :: "string \<Rightarrow> jsval \<Rightarrow> js_error + bool" where
  "js_in k (JObj ps) = Inr (obj_in k ps)"
| "js_in k (JArr xs) =
     Inr (k \<in> set (enum_keys (JArr xs)) \<or> k \<in> set arrayPrototypeKeys
          \<or> k \<in> set objectPrototypeKeys)"
| "js_in k v = Inl (TypeError (''Cannot use the in operator to search for '' @ k))"

text \<open>The assignment \<^verbatim>\<open>ob[k] = v\<close> on a plain object: an existing property keeps its
  place, a new one is added last. Under the name \<^verbatim>\<open>__proto__\<close> the assignment reaches the
  inherited setter instead and creates no property.\<close>

definition obj_set :: "obj \<Rightarrow> string \<Rightarrow> jsval \<Rightarrow> obj" where
  "obj_set ob k v = (if k = ''__proto__'' then ob else AList.update k v ob)"

text \<open>\<^verbatim>\<open>String.prototype.trim\<close>, on the white space of the modelled range of code
  units: TAB, LF, VT, FF, CR, SP and NBSP.\<close>

definition dquote :: string where
  "dquote = [CHR 0x22]"

definition isWhiteSpace :: "char \<Rightarrow> bool" where
  "isWhiteSpace c = (of_char c \<in> {9, 10, 11, 12, 13, 32, 160 :: nat})"

definition trim :: "string \<Rightarrow> string" where
  "trim s = rev (dropWhile isWhiteSpace (rev (dropWhile isWhiteSpace s)))"

section \<open>Configuration: \<^verbatim>\<open>pyconfig.ts\<close>\<close>

text \<open>The schema \<^verbatim>\<open>allKeys\<close>, grouped by declared type, in the order of the source.\<close>

definition allKeys :: "(string \<times> string list) list" where
  "allKeys =
     [(''string'', [''name'', ''description'', ''version'', ''type'', ''author_name'',
                    ''author_email'', ''license'']),
      (''number'', [''schema_version'']),
      (''boolean'', [''autoclose_loader'']),
      (''array'', [''runtimes'', ''packages'', ''paths'', ''plugins''])]"

definition schemaKeys :: "string list" where
  "schemaKeys = concat (map snd allKeys)"

text \<open>The object literal that initialises \<^verbatim>\<open>defaultConfig\<close>.\<close>

definition defaultConfig_literal :: obj where
  "defaultConfig_literal =
     [(''schema_version'', JNum (Finite 1)),
      (''type'', JStr ''app''),
      (''autoclose_loader'', JBool True),
      (''runtimes'',
         JArr [JObj [(''src'', JStr ''https://cdn.jsdelivr.net/pyodide/v0.21.3/full/pyodide.js''),
                     (''name'', JStr ''pyodide-0.21.3''),
                     (''lang'', JStr ''python'')]]),
      (''packages'', JArr []),
      (''paths'', JArr []),
      (''plugins'', JArr [])]"

text \<open>
  Config objects are passed, returned and written to by reference, and \<^verbatim>\<open>defaultConfig\<close>
  is one object shared by the whole module. They live in a store: a reference is an
  address, \<^verbatim>\<open>cells\<close> gives the object at an address, \<^verbatim>\<open>nxt\<close> is the next free
  address. The values inside a config (arrays, runtime entries) are never written to by
  this module, so they are kept as values. The state also holds what \<^verbatim>\<open>showError\<close> has
  put on the page and what \<^verbatim>\<open>logger.info\<close> has logged.
\<close>

record state =
  cells :: "nat \<Rightarrow> obj"
  nxt :: nat
  errors_shown :: "string list"
  info_log :: "string list"

definition defaultConfig :: nat where
  "defaultConfig = 0"

definition init_state :: state where
  "init_state =
     \<lparr>cells = (\<lambda>a. [])(defaultConfig := defaultConfig_literal), nxt = 1,
      errors_shown = [], info_log = []\<rparr>"

definition alloc :: "obj \<Rightarrow> state \<Rightarrow> nat \<times> state" where
  "alloc ob s = (nxt s, s\<lparr>cells := (cells s)(nxt s := ob), nxt := Suc (nxt s)\<rparr>)"

text \<open>What the module imports and the platform provides: the two parsers, the fetch of
  a text, the version of the runtime and the clock.\<close>

record env =
  toml_parse :: "string \<Rightarrow> js_error + jsval"
  json_parse :: "string \<Rightarrow> js_error + jsval"
  readTextFromPath :: "string \<Rightarrow> string"
  version :: string
  now :: string

subsection \<open>\<^verbatim>\<open>fillUserData\<close>\<close>

text \<open>The first argument is the current content of \<^verbatim>\<open>defaultConfig\<close>, which the
  function reads through \<^verbatim>\<open>key in defaultConfig\<close>; \<^verbatim>\<open>inputConfig\<close> is given by its own
  enumerable properties (all that \<^verbatim>\<open>for ... in\<close> and \<^verbatim>\<open>inputConfig[key]\<close> use). The
  result object is always one the caller has just created, so the update in place is
  returned as a value.\<close>

definition fillUserData :: "obj \<Rightarrow> obj \<Rightarrow> obj \<Rightarrow> obj" where
  "fillUserData dc inputConfig resultConfig =
     fold (\<lambda>key res. if \<not> obj_in key dc then obj_set res key (obj_get inputConfig key) else res)
       (map fst inputConfig) resultConfig"

subsection \<open>\<^verbatim>\<open>mergeConfig\<close>\<close>

definition mergeItem :: "string \<Rightarrow> obj \<Rightarrow> obj \<Rightarrow> string \<Rightarrow> obj \<Rightarrow> obj" where
  "mergeItem keyType inlineConfig externalConfig item merged =
     (if keyType = ''boolean'' then
        obj_set merged item
          (if typeof (obj_get inlineConfig item) \<noteq> ''undefined'' then obj_get inlineConfig item
           else obj_get externalConfig item)
      else obj_set merged item (js_or (obj_get inlineConfig item) (obj_get externalConfig item)))"

definition mergeFields :: "obj \<Rightarrow> obj \<Rightarrow> obj \<Rightarrow> obj" where
  "mergeFields dc inlineConfig externalConfig =
     (let merged = fold (\<lambda>(keyType, keys). fold (mergeItem keyType inlineConfig externalConfig) keys)
                     allKeys [];
          merged = fillUserData dc externalConfig merged;
          merged = fillUserData dc inlineConfig merged
      in merged)"

definition mergeConfig :: "state \<Rightarrow> nat \<Rightarrow> nat \<Rightarrow> nat \<times> state" where
  "mergeConfig s inlineConfig externalConfig =
     (if length (map fst (cells s inlineConfig)) = 0 \<and> length (map fst (cells s externalConfig)) = 0
      then (defaultConfig, s)
      else if length (map fst (cells s inlineConfig)) = 0 then (externalConfig, s)
      else if length (map fst (cells s externalConfig)) = 0 then (inlineConfig, s)
      else alloc (mergeFields (cells s defaultConfig) (cells s inlineConfig) (cells s externalConfig)) s)"

subsection \<open>\<^verbatim>\<open>parseConfig\<close>\<close>

text \<open>The result is the list of messages given to \<^verbatim>\<open>showError\<close>, in order, and either
  the error thrown or the value returned. \<^verbatim>\<open>tomlTry\<close> is the \<^verbatim>\<open>try\<close> block of the TOML
  branch; the \<^verbatim>\<open>catch\<close> clause receives whatever it throws, the guard's own \<^verbatim>\<open>Error\<close>
  included.\<close>

definition tomlTry :: "env \<Rightarrow> string \<Rightarrow> string list \<times> (js_error + jsval)" where
  "tomlTry env configText =
     (if (case trim configText of [] \<Rightarrow> False | c # cs \<Rightarrow> c = CHR ''{'') then
        (let errMessage = ''config supplied: '' @ configText
                           @ '' is an invalid TOML and cannot be parsed''
         in ([''<p>'' @ errMessage @ ''</p>''], Inl (Error errMessage)))
      else ([], toml_parse env configText))"

definition parseConfig :: "env \<Rightarrow> string \<Rightarrow> string \<Rightarrow> string list \<times> (js_error + jsval)" where
  "parseConfig env configText configType =
     (if configType = ''toml'' then
        (case tomlTry env configText of
           (shown, Inr config) \<Rightarrow> (shown, Inr config)
         | (shown, Inl err) \<Rightarrow>
             (let errMessage = err_string err
              in (shown @ [''<p>config supplied: '' @ configText
                            @ '' is an invalid TOML and cannot be parsed: '' @ errMessage
                            @ ''</p>''],
                  Inl (SyntaxError errMessage))))
      else if configType = ''json'' then
        (case json_parse env configText of
           Inr config \<Rightarrow> ([], Inr config)
         | Inl err \<Rightarrow>
             (let errMessage = err_string err
              in ([''<p>config supplied: '' @ configText
                    @ '' is an invalid JSON and cannot be parsed: '' @ errMessage @ ''</p>''],
                  Inl err)))
      else
        ([''<p>type of config supplied is: '' @ configType
           @ '', supported values are ['' @ dquote @ ''toml'' @ dquote @ '', ''
           @ dquote @ ''json'' @ dquote @ ''].</p>''],
         Inr JUndefined))"

subsection \<open>\<^verbatim>\<open>validateConfig\<close>\<close>

text \<open>A loop whose body may throw: the first error ends it.\<close>

fun foldE :: "('a \<Rightarrow> 'b \<Rightarrow> 'e + 'b) \<Rightarrow> 'a list \<Rightarrow> 'b \<Rightarrow> 'e + 'b" where
  "foldE f [] acc = Inr acc"
| "foldE f (x # xs) acc = (case f x acc of Inl e \<Rightarrow> Inl e | Inr acc' \<Rightarrow> foldE f xs acc')"

definition validateParamInConfig :: "string \<Rightarrow> string \<Rightarrow> jsval \<Rightarrow> js_error + bool" where
  "validateParamInConfig paramName paramType config =
     (case js_in paramName config of
        Inl e \<Rightarrow> Inl e
      | Inr present \<Rightarrow>
          Inr (if present then
                 (if paramType = ''array'' then isArray (js_get config paramName)
                  else typeof (js_get config paramName) = paramType)
               else False))"

text \<open>The body of \<^verbatim>\<open>runtimes.forEach\<close>: a fresh \<^verbatim>\<open>runtimeConfig\<close> receives the
  parameters of \<^verbatim>\<open>eachRuntime\<close> that pass the string check, and is pushed.\<close>

definition validateRuntimeParam :: "jsval \<Rightarrow> string \<Rightarrow> obj \<Rightarrow> js_error + obj" where
  "validateRuntimeParam eachRuntime eachRuntimeParam runtimeConfig =
     (case validateParamInConfig eachRuntimeParam ''string'' eachRuntime of
        Inl e \<Rightarrow> Inl e
      | Inr ok \<Rightarrow>
          Inr (if ok then obj_set runtimeConfig eachRuntimeParam (js_get eachRuntime eachRuntimeParam)
               else runtimeConfig))"

definition validateRuntime :: "jsval \<Rightarrow> jsval list \<Rightarrow> js_error + jsval list" where
  "validateRuntime eachRuntime pushed =
     (case foldE (validateRuntimeParam eachRuntime) (enum_keys eachRuntime) [] of
        Inl e \<Rightarrow> Inl e
      | Inr runtimeConfig \<Rightarrow> Inr (pushed @ [JObj runtimeConfig]))"

text \<open>The body of \<^verbatim>\<open>keys.forEach\<close>. When \<^verbatim>\<open>item\<close> is \<^verbatim>\<open>runtimes\<close> the check has
  found an array; were the value anything else, \<^verbatim>\<open>runtimes.forEach\<close> would not exist.\<close>

definition validateItem :: "jsval \<Rightarrow> string \<Rightarrow> string \<Rightarrow> obj \<Rightarrow> js_error + obj" where
  "validateItem config keyType item finalConfig =
     (case validateParamInConfig item keyType config of
        Inl e \<Rightarrow> Inl e
      | Inr ok \<Rightarrow>
          if ok then
            (if item = ''runtimes'' then
               (case js_get config item of
                  JArr runtimes \<Rightarrow>
                    (case foldE validateRuntime runtimes [] of
                       Inl e \<Rightarrow> Inl e
                     | Inr pushed \<Rightarrow> Inr (obj_set finalConfig item (JArr pushed)))
                | _ \<Rightarrow> Inl (TypeError ''runtimes.forEach is not a function''))
             else Inr (obj_set finalConfig item (js_get config item)))
          else Inr finalConfig)"

text \<open>The part of \<^verbatim>\<open>validateConfig\<close> after the call of \<^verbatim>\<open>parseConfig\<close>, on the value
  \<^verbatim>\<open>config\<close> that call returned; \<^verbatim>\<open>dc\<close> is the current content of
  \<^verbatim>\<open>defaultConfig\<close>.\<close>

definition validateParsed :: "obj \<Rightarrow> jsval \<Rightarrow> js_error + obj" where
  "validateParsed dc config =
     (case foldE (\<lambda>(keyType, keys). foldE (validateItem config keyType) keys) allKeys [] of
        Inl e \<Rightarrow> Inl e
      | Inr finalConfig \<Rightarrow> Inr (fillUserData dc (own_props config) finalConfig))"

definition validateConfig :: "env \<Rightarrow> obj \<Rightarrow> string \<Rightarrow> string \<Rightarrow> string list \<times> (js_error + obj)" where
  "validateConfig env dc configText configType =
     (case parseConfig env configText configType of
        (shown, Inl e) \<Rightarrow> (shown, Inl e)
      | (shown, Inr config) \<Rightarrow> (shown, validateParsed dc config))"

subsection \<open>\<^verbatim>\<open>loadConfigFromElement\<close>\<close>

text \<open>Modelled from the spec: \<^verbatim>\<open>getAttribute\<close> of \<^verbatim>\<open>utils\<close> is not among the sources;
  the element carries an optional \<^verbatim>\<open>type\<close> and an optional \<^verbatim>\<open>src\<close> attribute, and an
  absent attribute reads as \<^verbatim>\<open>null\<close>. Both uses test the result for truthiness.\<close>

record element =
  type_attr :: "string option"
  src_attr :: "string option"
  innerHTML :: string

definition attr_or :: "string option \<Rightarrow> string \<Rightarrow> string" where
  "attr_or a d = (case a of None \<Rightarrow> d | Some v \<Rightarrow> if v = [] then d else v)"

definition runValidate :: "env \<Rightarrow> string \<Rightarrow> string \<Rightarrow> state \<Rightarrow> (js_error + obj) \<times> state" where
  "runValidate env configText configType s =
     (case validateConfig env (cells s defaultConfig) configText configType of
        (shown, r) \<Rightarrow> (r, s\<lparr>errors_shown := errors_shown s @ shown\<rparr>))"

definition extractFromSrc :: "env \<Rightarrow> element \<Rightarrow> string \<Rightarrow> state \<Rightarrow> (js_error + obj) \<times> state" where
  "extractFromSrc env el configType s =
     (let src = attr_or (src_attr el) [] in
      if src \<noteq> [] then
        runValidate env (readTextFromPath env src) configType
          (s\<lparr>info_log := info_log s @ [''loading '' @ src]\<rparr>)
      else (Inr [], s))"

definition extractFromInline :: "env \<Rightarrow> element \<Rightarrow> string \<Rightarrow> state \<Rightarrow> (js_error + obj) \<times> state" where
  "extractFromInline env el configType s =
     (if innerHTML el \<noteq> [] then
        runValidate env (innerHTML el) configType
          (s\<lparr>info_log := info_log s @ [''loading <py-config> content'']\<rparr>)
      else (Inr [], s))"

text \<open>Lines 70 to 76: the two merges and the stamp, written into the object that the
  second merge returned.\<close>

definition mergeAndStamp :: "env \<Rightarrow> nat \<Rightarrow> nat \<Rightarrow> state \<Rightarrow> nat \<times> state" where
  "mergeAndStamp env srcConfig inlineConfig s =
     (let (srcConfig', s1) = mergeConfig s srcConfig defaultConfig;
          (result, s2) = mergeConfig s1 inlineConfig srcConfig';
          pyscript = JObj [(''version'', JStr (version env)), (''time'', JStr (now env))]
      in (result, s2\<lparr>cells := (cells s2)(result := obj_set (cells s2 result) ''pyscript'' pyscript)\<rparr>))"

definition loadConfigFromElement :: "env \<Rightarrow> element option \<Rightarrow> state \<Rightarrow> (js_error + nat) \<times> state" where
  "loadConfigFromElement env el s =
     (case el of
        None \<Rightarrow>
          (let (srcConfig, s1) = alloc [] s;
               (inlineConfig, s2) = alloc [] s1;
               (result, s3) = mergeAndStamp env srcConfig inlineConfig s2
           in (Inr result, s3))
      | Some e \<Rightarrow>
          (let configType = attr_or (type_attr e) ''toml'' in
           case extractFromSrc env e configType s of
             (Inl err, s1) \<Rightarrow> (Inl err, s1)
           | (Inr srcObj, s1) \<Rightarrow>
               (case extractFromInline env e configType s1 of
                  (Inl err, s2) \<Rightarrow> (Inl err, s2)
                | (Inr inlineObj, s2) \<Rightarrow>
                    (let (srcConfig, s3) = alloc srcObj s2;
                         (inlineConfig, s4) = alloc inlineObj s3;
                         (result, s5) = mergeAndStamp env srcConfig inlineConfig s4
                     in (Inr result, s5)))))"

section \<open>Execution: \<^verbatim>\<open>pyexec.ts\<close>\<close>

text \<open>
  The state \<^verbatim>\<open>pyExec\<close> works on: the interpreter's display target (\<^verbatim>\<open>None\<close> for
  \<^verbatim>\<open>undefined\<close>), the output element with its \<^verbatim>\<open>id\<close> (empty when it has none) and its
  child nodes, and what \<^verbatim>\<open>logger.error\<close> has logged. The runtime is outside the
  repository: \<^verbatim>\<open>runtime.run\<close> is a parameter, any function from the source text and the
  state to an outcome and a new state, where the outcome is the value returned or the
  error object thrown (section 6 of the specification: \<^verbatim>\<open>run\<close> fails by raising an error
  object). A run that never finishes is outside this model, as \<^verbatim>\<open>pyExec\<close> then never
  returns either.
\<close>

record node =
  tag :: string
  className :: string
  innerText :: string

record exec_state =
  display_target :: "string option"
  elem_id :: string
  children :: "node list"
  error_log :: "string list"

type_synonym runtime_run = "string \<Rightarrow> exec_state \<Rightarrow> (js_error + jsval) \<times> exec_state"

definition set_current_display_target :: "string option \<Rightarrow> exec_state \<Rightarrow> exec_state" where
  "set_current_display_target t s = s\<lparr>display_target := t\<rparr>"

text \<open>Modelled from the spec: \<^verbatim>\<open>ensureUniqueId\<close> of \<^verbatim>\<open>utils\<close> is not among the sources;
  it gives the element an identifier if it has none. The identifier it would choose is
  the parameter \<^verbatim>\<open>uid\<close>.\<close>

definition ensureUniqueId :: "string \<Rightarrow> exec_state \<Rightarrow> exec_state" where
  "ensureUniqueId uid s = (if elem_id s = [] then s\<lparr>elem_id := uid\<rparr> else s)"

definition displayPyException :: "js_error \<Rightarrow> exec_state \<Rightarrow> exec_state" where
  "displayPyException err s =
     (let pre = \<lparr>tag = ''pre'', className = ''py-error'', innerText = []\<rparr> in
      if err_name err = ''PythonError'' then
        s\<lparr>error_log := error_log s @ [''Python exception:'' @ [CHR 0x0A] @ err_message err],
          children := children s @ [pre\<lparr>innerText := err_message err\<rparr>]\<rparr>
      else
        s\<lparr>error_log := error_log s @ [''Non-python exception:'' @ [CHR 0x0A] @ err_string err],
          children := children s @ [pre\<lparr>innerText := err_string err\<rparr>]\<rparr>)"

text \<open>\<^verbatim>\<open>pyExec\<close>: the inner \<^verbatim>\<open>try\<close> returns the value of the run or, in its
  \<^verbatim>\<open>catch\<close>, displays the error and falls through to return \<^verbatim>\<open>undefined\<close>; the
  \<^verbatim>\<open>finally\<close> clause runs on both ways out.\<close>

definition pyExec :: "runtime_run \<Rightarrow> string \<Rightarrow> string \<Rightarrow> exec_state \<Rightarrow> (js_error + jsval) \<times> exec_state" where
  "pyExec run uid pysrc s =
     (let s1 = ensureUniqueId uid s;
          s2 = set_current_display_target (Some (elem_id s1)) s1;
          (outcome, s3) = run pysrc s2;
          (returned, s4) = (case outcome of
                              Inr v \<Rightarrow> (Inr v, s3)
                            | Inl err \<Rightarrow> (Inr JUndefined, displayPyException err s3))
      in (returned, set_current_display_target None s4))"

section \<open>Notions used to state the properties\<close>

text \<open>The keys of one declared type, and the object behind the reference that
  \<^verbatim>\<open>mergeConfig\<close> returns.\<close>

definition keysOfType :: "string \<Rightarrow> string list" where
  "keysOfType t = concat (map snd (filter (\<lambda>(keyType, keys). keyType = t) allKeys))"

definition mergedObject :: "state \<Rightarrow> nat \<Rightarrow> nat \<Rightarrow> obj" where
  "mergedObject s p q = (case mergeConfig s p q of (r, s') \<Rightarrow> cells s' r)"

text \<open>The first character of a text that is not white space, if there is one.\<close>

definition firstNonWhite :: "string \<Rightarrow> char option" where
  "firstNonWhite s = (case dropWhile isWhiteSpace s of [] \<Rightarrow> None | c # cs \<Rightarrow> Some c)"

fun nonEmptyString :: "jsval \<Rightarrow> bool" where
  "nonEmptyString (JStr (c # cs)) = True"
| "nonEmptyString v = False"

text \<open>The fields of a runtime entry whose values are strings, collected the way the
  loop over its parameters collects them when no test fails.\<close>

definition keptFields :: "jsval \<Rightarrow> obj" where
  "keptFields r =
     fold (\<lambda>k rc. if typeof (js_get r k) = ''string'' then obj_set rc k (js_get r k) else rc)
       (enum_keys r) []"

text \<open>The time stamp that \<^verbatim>\<open>loadConfigFromElement\<close> writes.\<close>

definition stamp :: "env \<Rightarrow> jsval" where
  "stamp env = JObj [(''version'', JStr (version env)), (''time'', JStr (now env))]"

text \<open>Concrete inputs for the examples: the state of a freshly loaded module with two
  config objects at the addresses 1 and 2, an environment whose parsers reject every
  text, a run that fails with a given error, and an output element without identifier
  or children.\<close>

definition sample_state :: "obj \<Rightarrow> obj \<Rightarrow> state" where
  "sample_state a b =
     \<lparr>cells = (\<lambda>x. [])(defaultConfig := defaultConfig_literal, 1 := a, 2 := b), nxt = 3,
      errors_shown = [], info_log = []\<rparr>"

definition sample_env :: env where
  "sample_env =
     \<lparr>toml_parse = (\<lambda>t. Inl (JsError ''n'' ''Expected = but end of input found''
                                ''n: Expected = but end of input found'')),
      json_parse = (\<lambda>t. Inl (SyntaxError ''Unexpected end of JSON input'')),
      readTextFromPath = (\<lambda>path. []),
      version = ''2022.12.1'',
      now = ''2022-12-01T00:00:00.000Z''\<rparr>"



section \<open>Objects: reading after writing\<close>

lemma obj_get_map_of: "obj_get ob k = (case map_of ob k of Some x \<Rightarrow> x | None \<Rightarrow> JUndefined)"
  by (simp add: obj_get_def js_get_def)

lemma obj_get_obj_set:
  "obj_get (obj_set ob k v) k' = (if k' = k \<and> k \<noteq> ''__proto__'' then v else obj_get ob k')"
  by (simp add: obj_get_map_of obj_set_def update_conv')

lemma obj_get_absent: "k \<notin> set (map fst ob) \<Longrightarrow> obj_get ob k = JUndefined"
  by (simp add: obj_get_map_of map_of_eq_None_iff[THEN iffD2])

lemma proto_inherited: "obj_in ''__proto__'' dc"
  by (simp add: obj_in_def objectPrototypeKeys_def)

lemma typeof_undefined: "(typeof v = ''undefined'') = (v = JUndefined)"
  by (cases v) simp_all

lemma js_or_undefined: "js_or JUndefined v = v"
  by (simp add: js_or_def)

section \<open>What \<^verbatim>\<open>fillUserData\<close> and the schema loop leave under a key\<close>

lemma fillUserData_fold_get:
  "obj_get (fold (\<lambda>key res. if \<not> obj_in key dc then obj_set res key (obj_get inputConfig key) else res) ks res0) k
     = (if k \<in> set ks \<and> \<not> obj_in k dc then obj_get inputConfig k else obj_get res0 k)"
proof (induction ks arbitrary: res0)
  case Nil
  then show ?case by simp
next
  case (Cons a ks)
  show ?case
    using proto_inherited [of dc] by (auto simp: Cons.IH obj_get_obj_set)
qed

lemma fillUserData_get:
  "obj_get (fillUserData dc inputConfig resultConfig) k
     = (if k \<in> set (map fst inputConfig) \<and> \<not> obj_in k dc then obj_get inputConfig k
        else obj_get resultConfig k)"
  unfolding fillUserData_def by (rule fillUserData_fold_get)

lemma schema_merge_get:
  "item \<in> set schemaKeys \<Longrightarrow>
   obj_get (fold (\<lambda>(keyType, keys). fold (mergeItem keyType p q) keys) allKeys []) item
     = (if item \<in> set (keysOfType ''boolean'')
        then (if obj_get p item \<noteq> JUndefined then obj_get p item else obj_get q item)
        else js_or (obj_get p item) (obj_get q item))"
  unfolding allKeys_def schemaKeys_def keysOfType_def
  apply simp
  apply (elim disjE; simp add: mergeItem_def obj_get_obj_set typeof_undefined)
  done

lemma mergeFields_get:
  assumes "item \<in> set schemaKeys"
  shows "obj_get (mergeFields dc p q) item =
     (if \<not> obj_in item dc then (if item \<in> set (map fst p) then obj_get p item else obj_get q item)
      else if item \<in> set (keysOfType ''boolean'')
           then (if obj_get p item \<noteq> JUndefined then obj_get p item else obj_get q item)
      else js_or (obj_get p item) (obj_get q item))"
  using assms
  by (simp add: mergeFields_def Let_def fillUserData_get schema_merge_get obj_get_absent js_or_undefined)

lemma mergedObject_merge:
  "cells s p \<noteq> [] \<Longrightarrow> cells s q \<noteq> [] \<Longrightarrow>
   mergedObject s p q = mergeFields (cells s defaultConfig) (cells s p) (cells s q)"
  by (simp add: mergedObject_def mergeConfig_def alloc_def)

lemma trim_firstNonWhite:
  "(case trim s of [] \<Rightarrow> False | c # cs \<Rightarrow> c = x) = (firstNonWhite s = Some x)"
proof (cases "dropWhile isWhiteSpace s")
  case Nil
  show ?thesis unfolding trim_def firstNonWhite_def Nil by simp
next
  case (Cons c cs)
  then have "\<not> isWhiteSpace c"
    using hd_dropWhile [of isWhiteSpace s] by simp
  then have "trim s = c # rev (dropWhile isWhiteSpace (rev cs)) \<or> trim s = [c]"
    using Cons by (simp add: trim_def dropWhile_append)
  then show ?thesis
    using Cons by (auto simp: firstNonWhite_def)
qed

section \<open>Runtime entries and the schema loop of \<^verbatim>\<open>validateConfig\<close>\<close>

lemma defined_field_is_own: "js_get r k \<noteq> JUndefined \<Longrightarrow> k \<in> set (enum_keys r)"
proof -
  assume a: "js_get r k \<noteq> JUndefined"
  have "map_of (own_props r) k \<noteq> None"
  proof
    assume "map_of (own_props r) k = None"
    then have "js_get r k = JUndefined" by (simp add: js_get_def)
    with a show False by simp
  qed
  then show ?thesis
    unfolding enum_keys_def by (simp add: map_of_eq_None_iff)
qed

lemma string_field_is_own: "typeof (js_get r k) = ''string'' \<Longrightarrow> k \<in> set (enum_keys r)"
  by (rule defined_field_is_own) auto

lemma validateParamInConfig_string:
  assumes "\<not> nonEmptyString r" and "k \<in> set (enum_keys r)"
  shows "validateParamInConfig k ''string'' r = Inr (typeof (js_get r k) = ''string'')"
proof (cases r)
  case (JObj ps)
  with assms(2) show ?thesis
    by (simp add: validateParamInConfig_def obj_in_def enum_keys_def)
next
  case (JArr xs)
  with assms(2) show ?thesis
    by (simp add: validateParamInConfig_def)
next
  case (JStr str)
  with assms(1) have "str = []" by (cases str) simp_all
  with assms(2) JStr show ?thesis by (simp add: enum_keys_def)
qed (insert assms(2), simp_all add: enum_keys_def)


lemma validateRuntimeParams_fold:
  "\<not> nonEmptyString r \<Longrightarrow> set ks \<subseteq> set (enum_keys r) \<Longrightarrow>
   foldE (validateRuntimeParam r) ks rc =
     Inr (fold (\<lambda>k rc. if typeof (js_get r k) = ''string'' then obj_set rc k (js_get r k) else rc) ks rc)"
  by (induction ks arbitrary: rc) (simp_all add: validateRuntimeParam_def validateParamInConfig_string)

lemma validateRuntime_kept:
  "\<not> nonEmptyString r \<Longrightarrow> validateRuntime r pushed = Inr (pushed @ [JObj (keptFields r)])"
  by (simp add: validateRuntime_def validateRuntimeParams_fold keptFields_def)

lemma validateRuntimes_kept:
  "\<forall>r\<in>set rs. \<not> nonEmptyString r \<Longrightarrow>
   foldE validateRuntime rs pushed = Inr (pushed @ map (\<lambda>r. JObj (keptFields r)) rs)"
  by (induction rs arbitrary: pushed) (simp_all add: validateRuntime_kept)

lemma kept_fold_get:
  "obj_get (fold (\<lambda>k rc. if typeof (js_get r k) = ''string'' then obj_set rc k (js_get r k) else rc) ks rc) k
     = (if k \<in> set ks \<and> k \<noteq> ''__proto__'' \<and> typeof (js_get r k) = ''string'' then js_get r k
        else obj_get rc k)"
  by (induction ks arbitrary: rc) (auto simp: obj_get_obj_set)


lemma keptFields_get:
  "js_get (JObj (keptFields r)) k =
     (if k \<noteq> ''__proto__'' \<and> typeof (js_get r k) = ''string'' then js_get r k else JUndefined)"
proof -
  have "js_get (JObj (keptFields r)) k = obj_get (keptFields r) k"
    by (simp add: obj_get_def)
  also have "\<dots> = (if k \<in> set (enum_keys r) \<and> k \<noteq> ''__proto__'' \<and> typeof (js_get r k) = ''string''
                    then js_get r k else obj_get [] k)"
    unfolding keptFields_def by (rule kept_fold_get)
  also have "\<dots> = (if k \<noteq> ''__proto__'' \<and> typeof (js_get r k) = ''string'' then js_get r k
                    else JUndefined)"
    using string_field_is_own [of r k] by (simp add: obj_get_absent)
  finally show ?thesis .
qed

lemma validateItem_other:
  assumes "item \<noteq> ''runtimes''"
  shows "\<exists>fc'. validateItem (JObj ps) keyType item fc = Inr fc'
           \<and> obj_get fc' ''runtimes'' = obj_get fc ''runtimes''"
  using assms by (simp add: validateItem_def validateParamInConfig_def obj_get_obj_set)

lemma validateItems_other:
  "''runtimes'' \<notin> set ks \<Longrightarrow>
   \<exists>fc'. foldE (validateItem (JObj ps) keyType) ks fc = Inr fc'
         \<and> obj_get fc' ''runtimes'' = obj_get fc ''runtimes''"
proof (induction ks arbitrary: fc)
  case Nil
  then show ?case by simp
next
  case (Cons a ks)
  then obtain fc1 where 1: "validateItem (JObj ps) keyType a fc = Inr fc1"
      "obj_get fc1 ''runtimes'' = obj_get fc ''runtimes''"
    using validateItem_other [of a ps keyType fc] by auto
  from Cons obtain fc2 where 2: "foldE (validateItem (JObj ps) keyType) ks fc1 = Inr fc2"
      "obj_get fc2 ''runtimes'' = obj_get fc1 ''runtimes''"
    by fastforce
  from 1 2 show ?case by simp
qed

lemma validateItem_runtimes:
  assumes "js_get (JObj ps) ''runtimes'' = JArr rs" and "\<forall>r\<in>set rs. \<not> nonEmptyString r"
  shows "validateItem (JObj ps) ''array'' ''runtimes'' fc =
           Inr (obj_set fc ''runtimes'' (JArr (map (\<lambda>r. JObj (keptFields r)) rs)))"
proof -
  have "''runtimes'' \<in> set (map fst ps)"
    using assms(1) defined_field_is_own [of "JObj ps" "''runtimes''"] by (simp add: enum_keys_def)
  then show ?thesis
    using assms by (simp add: validateItem_def validateParamInConfig_def obj_in_def validateRuntimes_kept)
qed


lemma schema_validate_runtimes:
  assumes "js_get (JObj ps) ''runtimes'' = JArr rs" and "\<forall>r\<in>set rs. \<not> nonEmptyString r"
  shows "\<exists>fc. foldE (\<lambda>(keyType, keys). foldE (validateItem (JObj ps) keyType) keys) allKeys [] = Inr fc
           \<and> obj_get fc ''runtimes'' = JArr (map (\<lambda>r. JObj (keptFields r)) rs)"
proof -
  let ?cfg = "JObj ps"
  obtain fc1 where 1: "foldE (validateItem ?cfg ''string'')
        [''name'', ''description'', ''version'', ''type'', ''author_name'', ''author_email'', ''license''] []
        = Inr fc1"
    using validateItems_other [of "[''name'', ''description'', ''version'', ''type'', ''author_name'', ''author_email'', ''license'']" ps "''string''" "[]"] by auto
  obtain fc2 where 2: "foldE (validateItem ?cfg ''number'') [''schema_version''] fc1 = Inr fc2"
    using validateItems_other [of "[''schema_version'']" ps "''number''" fc1] by auto
  obtain fc3 where 3: "foldE (validateItem ?cfg ''boolean'') [''autoclose_loader''] fc2 = Inr fc3"
    using validateItems_other [of "[''autoclose_loader'']" ps "''boolean''" fc2] by auto
  let ?fc4 = "obj_set fc3 ''runtimes'' (JArr (map (\<lambda>r. JObj (keptFields r)) rs))"
  obtain fc5 where 5: "foldE (validateItem ?cfg ''array'') [''packages'', ''paths'', ''plugins''] ?fc4 = Inr fc5"
      "obj_get fc5 ''runtimes'' = obj_get ?fc4 ''runtimes''"
    using validateItems_other [of "[''packages'', ''paths'', ''plugins'']" ps "''array''" ?fc4] by auto
  have 4: "foldE (validateItem ?cfg ''array'') [''runtimes'', ''packages'', ''paths'', ''plugins''] fc3 = Inr fc5"
    using 5(1) validateItem_runtimes [OF assms, of fc3] by simp
  have "foldE (\<lambda>(keyType, keys). foldE (validateItem ?cfg keyType) keys) allKeys [] = Inr fc5"
    unfolding allKeys_def using 1 2 3 4 by simp
  moreover have "obj_get fc5 ''runtimes'' = JArr (map (\<lambda>r. JObj (keptFields r)) rs)"
    using 5(2) by (simp add: obj_get_obj_set)
  ultimately show ?thesis by blast
qed

section \<open>Loading with two empty configs\<close>

lemma mergeAndStamp_empty:
  assumes "cells s a = []" and "cells s b = []" and "cells s defaultConfig \<noteq> []"
  shows "mergeAndStamp env a b s =
           (defaultConfig,
            s\<lparr>cells := (cells s)(defaultConfig := obj_set (cells s defaultConfig) ''pyscript'' (stamp env))\<rparr>)"
  using assms by (simp add: mergeAndStamp_def mergeConfig_def stamp_def)

lemma load_empty:
  assumes "defaultConfig < nxt s" and "cells s defaultConfig \<noteq> []"
  shows "(case alloc [] s of (srcConfig, s1) \<Rightarrow>
            case alloc [] s1 of (inlineConfig, s2) \<Rightarrow>
              case mergeAndStamp env srcConfig inlineConfig s2 of (result, s3) \<Rightarrow> (Inr result, s3))
         = (Inr defaultConfig,
            s\<lparr>cells := (cells s)(nxt s := [], Suc (nxt s) := [],
                     defaultConfig := obj_set (cells s defaultConfig) ''pyscript'' (stamp env)),
               nxt := Suc (Suc (nxt s))\<rparr>)"
proof -
  let ?s2 = "s\<lparr>cells := (cells s)(nxt s := [], Suc (nxt s) := []), nxt := Suc (Suc (nxt s))\<rparr>"
  have "mergeAndStamp env (nxt s) (Suc (nxt s)) ?s2 =
           (defaultConfig,
            ?s2\<lparr>cells := (cells ?s2)(defaultConfig := obj_set (cells ?s2 defaultConfig) ''pyscript'' (stamp env))\<rparr>)"
    using assms by (intro mergeAndStamp_empty) auto
  then show ?thesis
    using assms by (simp add: alloc_def)
qed

section \<open>Parsing\<close>

text \<open>
  What \<^verbatim>\<open>parseConfig\<close> itself does with a declared format other than \<^verbatim>\<open>toml\<close> and
  \<^verbatim>\<open>json\<close>, whatever the text: it gives one message to \<^verbatim>\<open>showError\<close>, the one that lists
  the two supported formats, throws nothing and returns \<^verbatim>\<open>undefined\<close>. Its caller
  \<^verbatim>\<open>validateConfig\<close> does not expect that value: the test \<^verbatim>\<open>'name' in config\<close> of the
  first schema key raises a \<^verbatim>\<open>TypeError\<close>.
\<close>

lemma parseConfig_unsupported_type:
  "configType \<noteq> ''toml'' \<Longrightarrow> configType \<noteq> ''json'' \<Longrightarrow>
   parseConfig env configText configType =
     ([''<p>type of config supplied is: '' @ configType @ '', supported values are [''
        @ dquote @ ''toml'' @ dquote @ '', '' @ dquote @ ''json'' @ dquote @ ''].</p>''],
      Inr JUndefined)"
  by (simp add: parseConfig_def)

lemma validateConfig_unsupported_type:
  "configType \<noteq> ''toml'' \<Longrightarrow> configType \<noteq> ''json'' \<Longrightarrow>
   snd (validateConfig env dc configText configType)
     = Inl (TypeError ''Cannot use the in operator to search for name'')"
  by (simp add: validateConfig_def parseConfig_unsupported_type validateParsed_def allKeys_def
      validateItem_def validateParamInConfig_def)

text \<open>
  C1, evaluated where it fails. With the declared format \<^verbatim>\<open>yaml\<close> the path through
  \<^verbatim>\<open>validateConfig\<close> shows the one message and then raises a \<^verbatim>\<open>TypeError\<close> to the
  caller, where the claim has a message only and no error raised.
\<close>

theorem validateConfig_unsupported_type_raises:
  "length (fst (validateConfig sample_env defaultConfig_literal ''name: demo'' ''yaml'')) = 1
   \<and> snd (validateConfig sample_env defaultConfig_literal ''name: demo'' ''yaml'')
       = Inl (TypeError ''Cannot use the in operator to search for name'')"
  by (simp add: validateConfig_def parseConfig_def validateParsed_def allKeys_def
      validateItem_def validateParamInConfig_def)

text \<open>
  C7. A text whose first character that is not white space is an opening brace, parsed
  with the declared format \<^verbatim>\<open>toml\<close>, raises a \<^verbatim>\<open>SyntaxError\<close> whatever the TOML parser
  would say about it (the parser is not asked); its message is the string form of the
  guard's own error. On every other text that the TOML parser rejects, \<^verbatim>\<open>parseConfig\<close>
  raises a \<^verbatim>\<open>SyntaxError\<close> built from the string form of the parser's error, not that
  error itself.
\<close>

theorem parseConfig_toml_failures:
  "(firstNonWhite configText = Some (CHR ''{'') \<longrightarrow>
      snd (parseConfig env configText ''toml'') =
        Inl (SyntaxError (err_string (Error (''config supplied: '' @ configText
                                             @ '' is an invalid TOML and cannot be parsed'')))))
   \<and> (firstNonWhite configText \<noteq> Some (CHR ''{'') \<and> toml_parse env configText = Inl e \<longrightarrow>
      snd (parseConfig env configText ''toml'') = Inl (SyntaxError (err_string e)))"
  by (simp add: parseConfig_def tomlTry_def trim_firstNonWhite Let_def)

theorem parseConfig_toml_failures_witness:
  "firstNonWhite '' {x = 1}'' = Some (CHR ''{'')
   \<and> err_name (projl (snd (parseConfig sample_env '' {x = 1}'' ''toml''))) = ''SyntaxError''
   \<and> firstNonWhite ''x'' \<noteq> Some (CHR ''{'')
   \<and> snd (parseConfig sample_env ''x'' ''toml'') =
       Inl (SyntaxError ''n: Expected = but end of input found'')"
  using parseConfig_toml_failures [of "'' {x = 1}''" sample_env]
    parseConfig_toml_failures [of "''x''" sample_env "JsError ''n'' ''Expected = but end of input found'' ''n: Expected = but end of input found''"]
  by (simp add: firstNonWhite_def isWhiteSpace_def sample_env_def SyntaxError_def)

section \<open>Validation\<close>

text \<open>
  C3, evaluated where it fails. The parsed object binds \<^verbatim>\<open>name\<close> to the number 5. The
  schema loop does not copy it, but \<^verbatim>\<open>fillUserData\<close> tests \<^verbatim>\<open>key in defaultConfig\<close>, and
  \<^verbatim>\<open>defaultConfig\<close> has no \<^verbatim>\<open>name\<close>: the wrongly typed value is in the validated result.
  A wrongly typed \<^verbatim>\<open>type\<close>, a key that \<^verbatim>\<open>defaultConfig\<close> has, is dropped.
\<close>

theorem validateParsed_keeps_wrongly_typed_name:
  "validateParsed defaultConfig_literal (JObj [(''name'', JNum (Finite 5))])
     = Inr [(''name'', JNum (Finite 5))]
   \<and> validateParsed defaultConfig_literal (JObj [(''type'', JNum (Finite 5))]) = Inr []"
  by (simp add: validateParsed_def allKeys_def validateItem_def validateParamInConfig_def
      obj_in_def objectPrototypeKeys_def js_get_def fillUserData_def defaultConfig_literal_def
      obj_set_def obj_get_def)

text \<open>
  C9 (as amended). Let the parsed config be an object whose \<^verbatim>\<open>runtimes\<close> is an array
  with no non-empty string among its elements, and let \<^verbatim>\<open>runtimes\<close> be a property of
  \<^verbatim>\<open>defaultConfig\<close>. Then validation succeeds, and the validated \<^verbatim>\<open>runtimes\<close> is an array
  of the same length whose element at each position holds, under every name, the value of
  the entry at that position if that value is a string and the name is not
  \<^verbatim>\<open>__proto__\<close>, and nothing otherwise: a field that is not a string is dropped alone,
  the other fields of its entry and the other entries stay.
\<close>

theorem validateConfig_runtime_entries:
  assumes "js_get (JObj ps) ''runtimes'' = JArr rs"
    and "\<forall>r\<in>set rs. \<not> nonEmptyString r"
    and "obj_in ''runtimes'' dc"
  shows "\<exists>final out. validateParsed dc (JObj ps) = Inr final
           \<and> obj_get final ''runtimes'' = JArr out
           \<and> length out = length rs
           \<and> (\<forall>i<length rs. \<forall>k. js_get (out ! i) k =
                 (if k \<noteq> ''__proto__'' \<and> typeof (js_get (rs ! i) k) = ''string''
                  then js_get (rs ! i) k else JUndefined))"
proof -
  obtain fc where fc: "foldE (\<lambda>(keyType, keys). foldE (validateItem (JObj ps) keyType) keys) allKeys [] = Inr fc"
      "obj_get fc ''runtimes'' = JArr (map (\<lambda>r. JObj (keptFields r)) rs)"
    using schema_validate_runtimes [OF assms(1,2)] by blast
  let ?final = "fillUserData dc ps fc"
  let ?out = "map (\<lambda>r. JObj (keptFields r)) rs"
  have "validateParsed dc (JObj ps) = Inr ?final"
    by (simp add: validateParsed_def fc(1))
  moreover have "obj_get ?final ''runtimes'' = JArr ?out"
    using assms(3) by (simp add: fillUserData_get fc(2))
  moreover have "length ?out = length rs" by simp
  moreover have "\<forall>i<length rs. \<forall>k. js_get (?out ! i) k =
                 (if k \<noteq> ''__proto__'' \<and> typeof (js_get (rs ! i) k) = ''string''
                  then js_get (rs ! i) k else JUndefined)"
    by (simp add: keptFields_get)
  ultimately show ?thesis by blast
qed

theorem validateConfig_runtime_entries_witness:
  "js_get (JObj [(''runtimes'', JArr [JObj [(''src'', JNum (Finite 1)), (''name'', JStr ''pyodide'')],
                                      JObj [(''lang'', JStr ''python'')]])]) ''runtimes''
     = JArr [JObj [(''src'', JNum (Finite 1)), (''name'', JStr ''pyodide'')], JObj [(''lang'', JStr ''python'')]]
   \<and> \<not> nonEmptyString (JObj [(''src'', JNum (Finite 1)), (''name'', JStr ''pyodide'')])
   \<and> \<not> nonEmptyString (JObj [(''lang'', JStr ''python'')])
   \<and> obj_in ''runtimes'' defaultConfig_literal
   \<and> validateParsed defaultConfig_literal
        (JObj [(''runtimes'', JArr [JObj [(''src'', JNum (Finite 1)), (''name'', JStr ''pyodide'')],
                                    JObj [(''lang'', JStr ''python'')]])])
       = Inr [(''runtimes'', JArr [JObj [(''name'', JStr ''pyodide'')], JObj [(''lang'', JStr ''python'')]])]"
  using validateConfig_runtime_entries
    [of "[(''runtimes'', JArr [JObj [(''src'', JNum (Finite 1)), (''name'', JStr ''pyodide'')],
                                JObj [(''lang'', JStr ''python'')]])]"
        "[JObj [(''src'', JNum (Finite 1)), (''name'', JStr ''pyodide'')], JObj [(''lang'', JStr ''python'')]]"
        defaultConfig_literal]
  by (simp add: validateParsed_def allKeys_def validateItem_def validateParamInConfig_def
      validateRuntime_def validateRuntimeParam_def enum_keys_def
      obj_in_def objectPrototypeKeys_def js_get_def fillUserData_def defaultConfig_literal_def
      obj_set_def obj_get_def)

text \<open>
  C9, as stated, fails at two inputs. A runtime entry that is a non-empty string is
  enumerated by its indices, and the test \<^verbatim>\<open>'0' in 'ab'\<close> raises a \<^verbatim>\<open>TypeError\<close>: the
  whole config fails, although the entry before it is well formed. And a field named
  \<^verbatim>\<open>__proto__\<close> whose value is a string is not kept: the assignment to
  \<^verbatim>\<open>runtimeConfig['__proto__']\<close> creates no property.
\<close>

theorem validateParsed_runtime_string_entry:
  "validateParsed defaultConfig_literal
       (JObj [(''runtimes'', JArr [JObj [(''name'', JStr ''pyodide'')], JStr ''ab''])])
     = Inl (TypeError ''Cannot use the in operator to search for 0'')
   \<and> validateParsed defaultConfig_literal
       (JObj [(''runtimes'', JArr [JObj [(''__proto__'', JStr ''p''), (''lang'', JStr ''python'')]])])
     = Inr [(''runtimes'', JArr [JObj [(''lang'', JStr ''python'')]])]"
  by code_simp

section \<open>Merging\<close>

text \<open>
  C2 (as amended). For two non-empty config objects and every key of the schema, the
  merged object holds: for a key that is not a property of \<^verbatim>\<open>defaultConfig\<close> (\<^verbatim>\<open>name\<close>,
  \<^verbatim>\<open>description\<close>, \<^verbatim>\<open>version\<close>, \<^verbatim>\<open>author_name\<close>, \<^verbatim>\<open>author_email\<close>, \<^verbatim>\<open>license\<close>), the value
  of the primary config if the primary config has the key, whatever that value is, and
  the secondary's otherwise; for the boolean key, the primary's value if it is defined
  and the secondary's otherwise; for every other key (\<^verbatim>\<open>schema_version\<close>, \<^verbatim>\<open>type\<close> and
  the array keys), \<^verbatim>\<open>primary[key] || secondary[key]\<close>: the primary's value if it is
  truthy, the secondary's otherwise.
\<close>

theorem mergeConfig_schema_key:
  assumes "cells s p \<noteq> []" and "cells s q \<noteq> []" and "item \<in> set schemaKeys"
  shows "obj_get (mergedObject s p q) item =
     (if \<not> obj_in item (cells s defaultConfig)
      then (if item \<in> set (map fst (cells s p)) then obj_get (cells s p) item
            else obj_get (cells s q) item)
      else if item \<in> set (keysOfType ''boolean'')
      then (if obj_get (cells s p) item \<noteq> JUndefined then obj_get (cells s p) item
            else obj_get (cells s q) item)
      else js_or (obj_get (cells s p) item) (obj_get (cells s q) item))"
  unfolding mergedObject_merge [OF assms(1,2)] by (rule mergeFields_get [OF assms(3)])

theorem mergeConfig_schema_key_witness:
  "cells (sample_state [(''name'', JStr [])] [(''name'', JStr ''demo'')]) 1 \<noteq> []
   \<and> cells (sample_state [(''name'', JStr [])] [(''name'', JStr ''demo'')]) 2 \<noteq> []
   \<and> ''name'' \<in> set schemaKeys
   \<and> obj_get (mergedObject (sample_state [(''name'', JStr [])] [(''name'', JStr ''demo'')]) 1 2) ''name''
       = JStr []"
  using mergeConfig_schema_key [of "sample_state [(''name'', JStr [])] [(''name'', JStr ''demo'')]" 1 2 "''name''"]
  by (simp add: sample_state_def defaultConfig_def defaultConfig_literal_def schemaKeys_def
      allKeys_def obj_get_map_of obj_in_def objectPrototypeKeys_def)

text \<open>
  C2, as stated, fails for a falsy value of a key that \<^verbatim>\<open>defaultConfig\<close> has: merged over
  the default, the empty string under \<^verbatim>\<open>type\<close> is replaced by \<^verbatim>\<open>app\<close> and the number 0
  under \<^verbatim>\<open>schema_version\<close> by 1.
\<close>

theorem mergeConfig_falsy_replaced:
  "obj_get (cells (sample_state [(''type'', JStr []), (''schema_version'', JNum (Finite 0))] []) 1) ''type'' = JStr []
   \<and> obj_get (mergedObject (sample_state [(''type'', JStr []), (''schema_version'', JNum (Finite 0))] []) 1 defaultConfig) ''type'' = JStr ''app''
   \<and> obj_get (mergedObject (sample_state [(''type'', JStr []), (''schema_version'', JNum (Finite 0))] []) 1 defaultConfig) ''schema_version'' = JNum (Finite 1)"
  by (simp add: mergedObject_def mergeConfig_def sample_state_def defaultConfig_def alloc_def
      mergeFields_def allKeys_def mergeItem_def fillUserData_def obj_in_def objectPrototypeKeys_def
      defaultConfig_literal_def obj_set_def obj_get_def js_get_def js_or_def)

text \<open>
  C4. For the boolean key of the schema and two non-empty configs: an explicit \<^verbatim>\<open>false\<close>
  in the primary config is the value of the merged config, whatever the secondary holds;
  and, the key being a property of \<^verbatim>\<open>defaultConfig\<close>, the merged value is the primary's
  if that is defined and the secondary's otherwise.
\<close>

theorem mergeConfig_boolean_key:
  assumes "cells s p \<noteq> []" and "cells s q \<noteq> []" and "item \<in> set (keysOfType ''boolean'')"
  shows "(obj_get (cells s p) item = JBool False \<longrightarrow> obj_get (mergedObject s p q) item = JBool False)
       \<and> (obj_in item (cells s defaultConfig) \<longrightarrow>
            obj_get (mergedObject s p q) item =
              (if obj_get (cells s p) item \<noteq> JUndefined then obj_get (cells s p) item
               else obj_get (cells s q) item))"
proof -
  from assms(3) have sk: "item \<in> set schemaKeys"
    by (simp add: keysOfType_def schemaKeys_def allKeys_def)
  have absent: "item \<notin> set (map fst (cells s p)) \<Longrightarrow> obj_get (cells s p) item \<noteq> JBool False"
    by (simp add: obj_get_absent)
  show ?thesis
    using assms absent by (auto simp: mergedObject_merge mergeFields_get [OF sk])
qed

theorem mergeConfig_boolean_key_witness:
  "cells (sample_state [(''autoclose_loader'', JBool False)] []) 1 \<noteq> []
   \<and> cells (sample_state [(''autoclose_loader'', JBool False)] []) defaultConfig \<noteq> []
   \<and> ''autoclose_loader'' \<in> set (keysOfType ''boolean'')
   \<and> obj_get (cells (sample_state [(''autoclose_loader'', JBool False)] []) defaultConfig) ''autoclose_loader'' = JBool True
   \<and> obj_get (mergedObject (sample_state [(''autoclose_loader'', JBool False)] []) 1 defaultConfig)
         ''autoclose_loader'' = JBool False"
  using mergeConfig_boolean_key [of "sample_state [(''autoclose_loader'', JBool False)] []" 1 defaultConfig "''autoclose_loader''"]
  by (simp add: sample_state_def defaultConfig_def defaultConfig_literal_def keysOfType_def
      allKeys_def obj_get_map_of)

text \<open>
  C8. Given two empty objects, \<^verbatim>\<open>mergeConfig\<close> returns the reference \<^verbatim>\<open>defaultConfig\<close>;
  given one empty and one non-empty object it returns the reference of the non-empty
  one. In all three cases the store is as it was: nothing is merged and no key is
  filled in.
\<close>

theorem mergeConfig_empty_cases:
  "(cells s p = [] \<and> cells s q = [] \<longrightarrow> mergeConfig s p q = (defaultConfig, s))
   \<and> (cells s p = [] \<and> cells s q \<noteq> [] \<longrightarrow> mergeConfig s p q = (q, s))
   \<and> (cells s p \<noteq> [] \<and> cells s q = [] \<longrightarrow> mergeConfig s p q = (p, s))"
  by (simp add: mergeConfig_def)

theorem mergeConfig_empty_cases_witness:
  "mergeConfig (sample_state [] []) 1 2 = (defaultConfig, sample_state [] [])
   \<and> mergeConfig (sample_state [] [(''name'', JStr ''demo'')]) 1 2
       = (2, sample_state [] [(''name'', JStr ''demo'')])
   \<and> mergeConfig (sample_state [(''name'', JStr ''demo'')] []) 1 2
       = (1, sample_state [(''name'', JStr ''demo'')] [])"
  using mergeConfig_empty_cases [of "sample_state [] []" 1 2]
    mergeConfig_empty_cases [of "sample_state [] [(''name'', JStr ''demo'')]" 1 2]
    mergeConfig_empty_cases [of "sample_state [(''name'', JStr ''demo'')] []" 1 2]
  by (simp add: sample_state_def defaultConfig_def)

section \<open>The shared default\<close>

text \<open>
  C10. Let \<^verbatim>\<open>defaultConfig\<close> be allocated and non-empty, and let
  \<^verbatim>\<open>loadConfigFromElement\<close> be called with \<^verbatim>\<open>null\<close>, or with an element that has neither a
  \<^verbatim>\<open>src\<close> nor a content, so that both configs are empty. Then the reference it returns
  is \<^verbatim>\<open>defaultConfig\<close> itself, and the stamp is written into that shared object: after
  the call \<^verbatim>\<open>defaultConfig\<close> is its former content with \<^verbatim>\<open>pyscript\<close> set, and
  \<^verbatim>\<open>'pyscript' in defaultConfig\<close> holds, which is what every later \<^verbatim>\<open>fillUserData\<close> and
  every later merge reads.
\<close>

theorem loadConfigFromElement_stamps_defaultConfig:
  assumes "defaultConfig < nxt s" and "cells s defaultConfig \<noteq> []"
    and "el = None \<or> (\<exists>e. el = Some e \<and> attr_or (src_attr e) [] = [] \<and> innerHTML e = [])"
  shows "fst (loadConfigFromElement env el s) = Inr defaultConfig
       \<and> cells (snd (loadConfigFromElement env el s)) defaultConfig
           = obj_set (cells s defaultConfig) ''pyscript'' (stamp env)
       \<and> obj_get (cells (snd (loadConfigFromElement env el s)) defaultConfig) ''pyscript'' = stamp env
       \<and> obj_in ''pyscript'' (cells (snd (loadConfigFromElement env el s)) defaultConfig)"
proof -
  have "loadConfigFromElement env el s =
          (Inr defaultConfig,
            s\<lparr>cells := (cells s)(nxt s := [], Suc (nxt s) := [],
                     defaultConfig := obj_set (cells s defaultConfig) ''pyscript'' (stamp env)),
               nxt := Suc (Suc (nxt s))\<rparr>)"
    using assms(3) load_empty [OF assms(1,2), of env]
    by (auto simp: loadConfigFromElement_def extractFromSrc_def extractFromInline_def Let_def)
  moreover have "obj_in ''pyscript'' (obj_set (cells s defaultConfig) ''pyscript'' (stamp env))"
    by (simp add: obj_in_def obj_set_def dom_update)
  ultimately show ?thesis
    by (simp add: obj_get_obj_set)
qed

theorem loadConfigFromElement_stamps_defaultConfig_witness:
  "defaultConfig < nxt init_state \<and> cells init_state defaultConfig \<noteq> []
   \<and> obj_get (cells init_state defaultConfig) ''pyscript'' = JUndefined
   \<and> fst (loadConfigFromElement sample_env None init_state) = Inr defaultConfig
   \<and> obj_get (cells (snd (loadConfigFromElement sample_env None init_state)) defaultConfig) ''pyscript''
       = JObj [(''version'', JStr ''2022.12.1''), (''time'', JStr ''2022-12-01T00:00:00.000Z'')]
   \<and> fillUserData (cells init_state defaultConfig) [(''pyscript'', JStr ''mine'')] []
       = [(''pyscript'', JStr ''mine'')]
   \<and> fillUserData (cells (snd (loadConfigFromElement sample_env None init_state)) defaultConfig)
         [(''pyscript'', JStr ''mine'')] [] = []"
  using loadConfigFromElement_stamps_defaultConfig [of init_state None sample_env]
  by (simp add: init_state_def defaultConfig_def defaultConfig_literal_def stamp_def sample_env_def
      fillUserData_def obj_in_def objectPrototypeKeys_def obj_set_def obj_get_map_of)

section \<open>Execution\<close>

text \<open>
  C5. Whatever \<^verbatim>\<open>runtime.run\<close> does with the source text, return a value or throw an
  error, the display target is \<^verbatim>\<open>undefined\<close> in the state \<^verbatim>\<open>pyExec\<close> leaves, and
  \<^verbatim>\<open>pyExec\<close> returns normally.
\<close>

theorem pyExec_clears_display_target:
  "display_target (snd (pyExec run uid pysrc s)) = None
   \<and> (\<exists>v. fst (pyExec run uid pysrc s) = Inr v)"
  by (simp add: pyExec_def Let_def set_current_display_target_def split: prod.split sum.split)



end
